theory Spec2Isabelle
  imports Main "HOL-Library.Word" "HOL-Library.Sublist"
begin

section \<open>The resume optimisation route (src/app/api/resume/optimize/route.ts)\<close>

text \<open>
  The route has two parts: the pure helper \<open>nullToUndefined\<close> and the request handler
  \<open>POST\<close>. The handler talks to three collaborators (the session resolver, the multipart
  reader of the request, the remote resume service). They are not code of the route, so a
  request is modelled together with what each collaborator answers when it is asked: the
  record \<open>env\<close> below. What the handler does is a function of that record; its result is the
  response it returns, or the exception that leaves it, together with the list of remote
  calls it has made, in order.
\<close>

subsection \<open>JavaScript values\<close>

text \<open>
  The values \<open>nullToUndefined\<close> walks over: the two absence markers, the scalars, arrays and
  plain objects. An object is the list of its own enumerable properties in the order
  \<open>Object.entries\<close> yields them. Numbers are never inspected by the route except for
  truthiness, so integers stand for them.
\<close>

datatype jsval =
    JUndefined
  | JNull
  | JBool bool
  | JNum int
  | JStr string
  | JArr "jsval list"
  | JObj "(string \<times> jsval) list"

type_synonym props = "(string \<times> jsval) list"

text \<open>JavaScript truthiness, as used by \<open>!x\<close> and \<open>x || y\<close>.\<close>

fun truthy :: "jsval \<Rightarrow> bool" where
  "truthy JUndefined = False"
| "truthy JNull = False"
| "truthy (JBool b) = b"
| "truthy (JNum n) = (n \<noteq> 0)"
| "truthy (JStr s) = (s \<noteq> [])"
| "truthy (JArr xs) = True"
| "truthy (JObj ps) = True"

definition own_keys :: "props \<Rightarrow> string list" where
  "own_keys ps = map fst ps"

text \<open>
  The assignment \<open>result[key] = v\<close> on an object that was created by the literal \<open>{}\<close>.
  Such an object inherits the accessor property \<open>__proto__\<close> of \<open>Object.prototype\<close>, so
  an assignment under that key runs the accessor's setter and creates no own property
  (the setter changes the prototype when \<open>v\<close> is an object and does nothing otherwise).
  Under every other key the assignment overwrites the own property in place when it
  exists and appends a new one when it does not.
\<close>

definition assign :: "props \<Rightarrow> string \<Rightarrow> jsval \<Rightarrow> props" where
  "assign result key v =
     (if key = ''__proto__'' then result
      else if key \<in> set (own_keys result)
        then map (\<lambda>(k, old). if k = key then (k, v) else (k, old)) result
      else result @ [(key, v)])"

subsection \<open>nullToUndefined\<close>

text \<open>
  Line by line: \<open>null\<close> becomes \<open>undefined\<close>; a value whose \<open>typeof\<close> is not
  \<open>"object"\<close> is returned as it is; an array is mapped element by element; for any other
  object the loop over \<open>Object.entries\<close> assigns each normalised value to a fresh \<open>{}\<close>.
\<close>

fun nullToUndefined :: "jsval \<Rightarrow> jsval" where
  "nullToUndefined JNull = JUndefined"
| "nullToUndefined JUndefined = JUndefined"
| "nullToUndefined (JBool b) = JBool b"
| "nullToUndefined (JNum n) = JNum n"
| "nullToUndefined (JStr s) = JStr s"
| "nullToUndefined (JArr xs) = JArr (map nullToUndefined xs)"
| "nullToUndefined (JObj ps) =
     JObj (foldl (\<lambda>result (key, value). assign result key (nullToUndefined value)) [] ps)"

subsection \<open>Strings\<close>

text \<open>
  \<open>String.prototype.toLowerCase\<close> on the ASCII letters; every other character is
  left alone. The handler only compares the lower-cased name with the ASCII suffix
  \<open>.pdf\<close>, and no character outside \<open>A\<close> to \<open>Z\<close> lower-cases to one of its four
  characters.
\<close>

definition lower_char :: "char \<Rightarrow> char" where
  "lower_char c =
     (case map_of (zip ''ABCDEFGHIJKLMNOPQRSTUVWXYZ'' ''abcdefghijklmnopqrstuvwxyz'') c of
        Some l \<Rightarrow> l
      | None \<Rightarrow> c)"

definition toLowerCase :: "string \<Rightarrow> string" where
  "toLowerCase s = map lower_char s"

definition endsWith :: "string \<Rightarrow> string \<Rightarrow> bool" where
  "endsWith s search =
     (length search \<le> length s \<and> drop (length s - length search) s = search)"

subsection \<open>Collaborators\<close>

text \<open>
  What can be thrown inside the handler: an instance of the SDK's \<open>UseResumeError\<close>, with
  its message and its \<open>status\<close> field (absent when \<open>None\<close>), or anything else.
\<close>

datatype exn =
    UseResumeError string "nat option"
  | OtherError string

datatype 'a outcome = Returns 'a | Throws exn

datatype session = Session string

type_synonym bytes = "8 word list"

text \<open>An uploaded \<open>File\<close>: its name, its size in bytes, and what \<open>arrayBuffer()\<close> yields.\<close>

record upload =
  file_name :: string
  file_size :: nat
  file_arrayBuffer :: "bytes outcome"

text \<open>An entry of the form data is a file or a plain string field.\<close>

datatype form_entry = EntryFile upload | EntryString string

record parse_args =
  pa_file :: string
  pa_parse_to :: string

record parse_result =
  p_success :: bool
  p_data :: jsval

record style =
  template :: string
  template_color :: string
  font :: string

record create_args =
  ca_content :: jsval
  ca_style :: style

record create_data =
  file_url :: jsval
  file_url_expires_at :: jsval

record create_meta =
  credits_used :: jsval
  credits_remaining :: jsval

record create_result =
  c_success :: bool
  c_data :: "create_data option"
  c_meta :: "create_meta option"

datatype remote_call = ParseResume parse_args | CreateResume create_args

text \<open>
  One request and its surroundings: what \<open>auth.api.getSession\<close> answers, the value of the
  environment variable, what \<open>request.formData()\<close> answers (the entries in order, so that
  \<open>get\<close> is the first entry of that name), the base64 encoder of \<open>Buffer\<close>, and what the
  remote service answers to each call.
\<close>

record env =
  getSession :: "session option outcome"
  USERESUME_API_KEY :: "string option"
  formData :: "(string \<times> form_entry) list outcome"
  toBase64 :: "bytes \<Rightarrow> string"
  parseResume :: "parse_args \<Rightarrow> parse_result outcome"
  createResume :: "create_args \<Rightarrow> create_result outcome"

subsection \<open>Responses\<close>

record response =
  status :: nat
  body :: jsval

text \<open>
  \<open>NextResponse.json(body, { status })\<close>; the status is 200 when none is given. The
  call builds the response with \<open>Response.json\<close>, which throws a \<open>RangeError\<close> for a
  status outside 200 to 599 and, since the body is never empty here, a \<open>TypeError\<close> for
  the statuses that allow no body (204, 205, 304).
\<close>

definition json :: "jsval \<Rightarrow> nat \<Rightarrow> response outcome" where
  "json b s =
     (if s < 200 \<or> 599 < s then Throws (OtherError ''RangeError'')
      else if s = 204 \<or> s = 205 \<or> s = 304 then Throws (OtherError ''TypeError'')
      else Returns \<lparr>status = s, body = b\<rparr>)"

definition error_body :: "string \<Rightarrow> jsval" where
  "error_body msg = JObj [(''error'', JStr msg)]"

subsection \<open>The handler\<close>

text \<open>\<open>!USERESUME_API_KEY\<close>: the variable is unset or the empty string.\<close>

definition key_missing :: "string option \<Rightarrow> bool" where
  "key_missing k = (case k of None \<Rightarrow> True | Some s \<Rightarrow> s = [])"

text \<open>\<open>createResult.data?.file_url\<close>\<close>

definition data_file_url :: "create_result \<Rightarrow> jsval" where
  "data_file_url r = (case c_data r of None \<Rightarrow> JUndefined | Some d \<Rightarrow> file_url d)"

definition data_expires_at :: "create_result \<Rightarrow> jsval" where
  "data_expires_at r = (case c_data r of None \<Rightarrow> JUndefined | Some d \<Rightarrow> file_url_expires_at d)"

text \<open>\<open>createResult.meta?.credits_used\<close> and \<open>createResult.meta?.credits_remaining\<close>\<close>

definition meta_credits_used :: "create_result \<Rightarrow> jsval" where
  "meta_credits_used r = (case c_meta r of None \<Rightarrow> JUndefined | Some m \<Rightarrow> credits_used m)"

definition meta_credits_remaining :: "create_result \<Rightarrow> jsval" where
  "meta_credits_remaining r =
     (case c_meta r of None \<Rightarrow> JUndefined | Some m \<Rightarrow> credits_remaining m)"

definition horizon_style :: style where
  "horizon_style = \<lparr>template = ''horizon'', template_color = ''amber'', font = ''inter''\<rparr>"

definition success_body :: "create_result \<Rightarrow> jsval" where
  "success_body r =
     JObj [(''success'', JBool True),
           (''download_url'', data_file_url r),
           (''expires_at'', data_expires_at r),
           (''credits_used'', meta_credits_used r),
           (''credits_remaining'', meta_credits_remaining r)]"

text \<open>
  The result of running the body of the \<open>try\<close> block: a response that was returned
  (\<open>Inr\<close>) or an exception that was thrown (\<open>Inl\<close>), and the remote calls made so far.
\<close>

type_synonym run = "(exn + response) \<times> remote_call list"

text \<open>
  \<open>return NextResponse.json(body, { status })\<close> inside the \<open>try\<close> block: the response
  is returned when the call builds one, and what the call throws is thrown.
\<close>

definition return_json :: "jsval \<Rightarrow> nat \<Rightarrow> exn + response" where
  "return_json b s = (case json b s of Returns resp \<Rightarrow> Inr resp | Throws err \<Rightarrow> Inl err)"

text \<open>Lines 70 to 124: the two remote calls, once the file has passed the checks.\<close>

definition remote_steps :: "env \<Rightarrow> upload \<Rightarrow> run" where
  "remote_steps e f =
     (case file_arrayBuffer f of
        Throws err \<Rightarrow> (Inl err, [])
      | Returns fileBuffer \<Rightarrow>
          let base64File = toBase64 e fileBuffer;
              pargs = \<lparr>pa_file = base64File, pa_parse_to = ''json''\<rparr>
          in (case parseResume e pargs of
                Throws err \<Rightarrow> (Inl err, [ParseResume pargs])
              | Returns parseResult \<Rightarrow>
                  if \<not> p_success parseResult \<or> \<not> truthy (p_data parseResult)
                  then (return_json (error_body
                          ''Failed to parse resume. Please ensure the PDF is readable.'') 400,
                        [ParseResume pargs])
                  else
                    let resumeContent = nullToUndefined (p_data parseResult);
                        cargs = \<lparr>ca_content = resumeContent, ca_style = horizon_style\<rparr>
                    in (case createResume e cargs of
                          Throws err \<Rightarrow> (Inl err, [ParseResume pargs, CreateResume cargs])
                        | Returns createResult \<Rightarrow>
                            if \<not> c_success createResult \<or> \<not> truthy (data_file_url createResult)
                            then (return_json (error_body
                                    ''Failed to generate optimized resume'') 500,
                                  [ParseResume pargs, CreateResume cargs])
                            else (return_json (success_body createResult) 200,
                                  [ParseResume pargs, CreateResume cargs]))))"

text \<open>
  Lines 45 to 68: the checks on the form entry named \<open>file\<close>. The cast
  \<open>as File | null\<close> does nothing at run time, so the entry may be a string: the empty
  string is falsy and counts as no file; any other string has no \<open>name\<close>, and
  \<open>file.name.toLowerCase()\<close> throws a \<open>TypeError\<close>.
\<close>

definition file_steps :: "env \<Rightarrow> form_entry option \<Rightarrow> run" where
  "file_steps e entry =
     (case entry of
        None \<Rightarrow> (return_json (error_body ''No file provided'') 400, [])
      | Some (EntryString s) \<Rightarrow>
          if s = [] then (return_json (error_body ''No file provided'') 400, [])
          else (Inl (OtherError ''TypeError''), [])
      | Some (EntryFile f) \<Rightarrow>
          if \<not> endsWith (toLowerCase (file_name f)) ''.pdf''
          then (return_json (error_body ''Only PDF files are supported'') 400, [])
          else if file_size f > 5 * 1024 * 1024
          then (return_json (error_body ''File size exceeds 5MB limit'') 400, [])
          else remote_steps e f)"

text \<open>Lines 23 to 124: the body of the \<open>try\<close> block.\<close>

definition try_block :: "env \<Rightarrow> run" where
  "try_block e =
     (case getSession e of
        Throws err \<Rightarrow> (Inl err, [])
      | Returns session \<Rightarrow>
          if session = None
          then (return_json (error_body ''Unauthorized'') 401, [])
          else if key_missing (USERESUME_API_KEY e)
          then (return_json (error_body ''Resume service not configured'') 500, [])
          else (case formData e of
                  Throws err \<Rightarrow> (Inl err, [])
                | Returns fd \<Rightarrow> file_steps e (map_of fd ''file'')))"

text \<open>
  Lines 126 to 140: the \<open>catch\<close> block; \<open>error.status || 500\<close> takes 500 for 0 as well.
  What \<open>NextResponse.json\<close> throws here leaves the handler: nothing catches it.
\<close>

definition catch_block :: "exn \<Rightarrow> response outcome" where
  "catch_block err =
     (case err of
        UseResumeError message st \<Rightarrow>
          json (error_body (''Resume API error: '' @ message))
               (case st of None \<Rightarrow> 500 | Some n \<Rightarrow> if n = 0 then 500 else n)
      | OtherError _ \<Rightarrow>
          json (error_body ''Failed to optimize resume. Please try again.'') 500)"

text \<open>
  The handler: the response it returns, or the exception it throws when the \<open>catch\<close>
  block itself fails, and the remote calls it has made.
\<close>

definition POST :: "env \<Rightarrow> response outcome \<times> remote_call list" where
  "POST e =
     (case try_block e of
        (Inr resp, calls) \<Rightarrow> (Returns resp, calls)
      | (Inl err, calls) \<Rightarrow> (catch_block err, calls))"

subsection \<open>A concrete request\<close>

text \<open>
  The end-to-end scenario of the specification: an authenticated request with a 10 KB
  file named \<open>resume.pdf\<close>; the parse call returns \<open>{name: "A", skills: null}\<close>, the
  create call returns a file URL, its expiry and the credit counters. The encoder is a
  stand-in, since no property below depends on what it computes.
\<close>

definition scenario_file :: upload where
  "scenario_file =
     \<lparr>file_name = ''resume.pdf'', file_size = 10240,
      file_arrayBuffer = Returns (replicate 10240 0)\<rparr>"

definition scenario_parse_result :: parse_result where
  "scenario_parse_result =
     \<lparr>p_success = True, p_data = JObj [(''name'', JStr ''A''), (''skills'', JNull)]\<rparr>"

definition scenario_create_result :: create_result where
  "scenario_create_result =
     \<lparr>c_success = True,
      c_data = Some \<lparr>file_url = JStr ''https://x/y.pdf'',
                     file_url_expires_at = JStr ''2025-01-01T00:00:00Z''\<rparr>,
      c_meta = Some \<lparr>credits_used = JNum 1, credits_remaining = JNum 9\<rparr>\<rparr>"

definition scenario :: env where
  "scenario =
     \<lparr>getSession = Returns (Some (Session ''user-1'')),
      USERESUME_API_KEY = Some ''secret'',
      formData = Returns [(''file'', EntryFile scenario_file)],
      toBase64 = (\<lambda>bs. ''AAAA''),
      parseResume = (\<lambda>args. Returns scenario_parse_result),
      createResume = (\<lambda>args. Returns scenario_create_result)\<rparr>"

text \<open>The same request with another file in the form data.\<close>

definition with_file :: "upload \<Rightarrow> env" where
  "with_file f = scenario\<lparr>formData := Returns [(''file'', EntryFile f)]\<rparr>"

text \<open>Files at the size limit and one byte beyond it.\<close>

definition limit_file :: upload where
  "limit_file =
     \<lparr>file_name = ''Resume.PDF'', file_size = 5242880,
      file_arrayBuffer = Returns (replicate 5242880 0)\<rparr>"

definition oversize_file :: upload where
  "oversize_file =
     \<lparr>file_name = ''resume.pdf'', file_size = 5242881,
      file_arrayBuffer = Returns (replicate 5242881 0)\<rparr>"

definition docx_file :: upload where
  "docx_file =
     \<lparr>file_name = ''resume.docx'', file_size = 5242881,
      file_arrayBuffer = Returns (replicate 5242881 0)\<rparr>"



subsection \<open>The specification's side\<close>

text \<open>
  A name ends in \<open>.pdf\<close> in some letter case: its last four characters are a dot and the
  letters p, d, f, each in either case. This follows the specification's words and does
  not mention \<open>toLowerCase\<close>.
\<close>

definition ends_in_pdf_any_case :: "string \<Rightarrow> bool" where
  "ends_in_pdf_any_case name =
     (\<exists>p \<in> {CHR ''p'', CHR ''P''}. \<exists>d \<in> {CHR ''d'', CHR ''D''}. \<exists>f \<in> {CHR ''f'', CHR ''F''}.
        suffix [CHR ''.'', p, d, f] name)"

text \<open>
  Normalisation as the specification words it: sequences map element-wise, mappings map
  value-wise, scalars pass through, explicit absence becomes implicit absence.
\<close>

fun normalise :: "jsval \<Rightarrow> jsval" where
  "normalise JNull = JUndefined"
| "normalise JUndefined = JUndefined"
| "normalise (JBool b) = JBool b"
| "normalise (JNum n) = JNum n"
| "normalise (JStr s) = JStr s"
| "normalise (JArr xs) = JArr (map normalise xs)"
| "normalise (JObj ps) = JObj (map (\<lambda>(key, value). (key, normalise value)) ps)"

text \<open>
  Objects as they really are, at every depth: no key twice. \<open>proto_free\<close> says moreover
  that no object has an own property named \<open>__proto__\<close>.
\<close>

fun distinct_keys :: "jsval \<Rightarrow> bool" where
  "distinct_keys (JArr xs) = list_all distinct_keys xs"
| "distinct_keys (JObj ps) =
     (distinct (own_keys ps) \<and> list_all (\<lambda>(key, value). distinct_keys value) ps)"
| "distinct_keys v = True"

fun proto_free :: "jsval \<Rightarrow> bool" where
  "proto_free (JArr xs) = list_all proto_free xs"
| "proto_free (JObj ps) =
     (''__proto__'' \<notin> set (own_keys ps) \<and> list_all (\<lambda>(key, value). proto_free value) ps)"
| "proto_free v = True"

fun null_free :: "jsval \<Rightarrow> bool" where
  "null_free JNull = False"
| "null_free (JArr xs) = list_all null_free xs"
| "null_free (JObj ps) = list_all (\<lambda>(key, value). null_free value) ps"
| "null_free v = True"

section \<open>Properties\<close>

lemmas scenario_defs = scenario_def scenario_file_def scenario_parse_result_def
  scenario_create_result_def with_file_def

lemmas string_defs = toLowerCase_def lower_char_def endsWith_def

subsection \<open>Own properties after the loop of nullToUndefined\<close>

lemma own_keys_overwrite:
  "own_keys (map (\<lambda>(k, old). if k = key then (k, v) else (k, old)) r) = own_keys r"
  by (induction r) (auto simp: own_keys_def)

lemma own_keys_assign:
  "set (own_keys (assign r k v)) =
     (if k = ''__proto__'' then set (own_keys r) else insert k (set (own_keys r)))"
  by (auto simp: assign_def own_keys_overwrite) (auto simp: own_keys_def)

lemma own_keys_loop:
  "set (own_keys (foldl (\<lambda>result (key, value). assign result key (g value)) acc ps))
     = set (own_keys acc) \<union> (set (own_keys ps) - {''__proto__''})"
proof (induction ps arbitrary: acc)
  case Nil
  then show ?case by (simp add: own_keys_def)
next
  case (Cons p ps)
  obtain k v where p: "p = (k, v)" by (cases p)
  show ?case
    by (simp add: p Cons.IH own_keys_assign) (auto simp: own_keys_def)
qed

text \<open>The keys of the result are the keys of the argument except \<open>__proto__\<close>.\<close>

lemma nullToUndefined_own_keys:
  assumes "nullToUndefined (JObj ps) = JObj qs"
  shows "set (own_keys qs) = set (own_keys ps) - {''__proto__''}"
  using assms own_keys_loop [of nullToUndefined "[]" ps] by (simp add: own_keys_def)

text \<open>
  On keys that are distinct, are not \<open>__proto__\<close> and are not yet in the result, the loop
  appends one property per entry.
\<close>

lemma loop_fresh_keys:
  assumes "distinct (own_keys ps)" and "''__proto__'' \<notin> set (own_keys ps)"
    and "set (own_keys acc) \<inter> set (own_keys ps) = {}"
  shows "foldl (\<lambda>result (key, value). assign result key (g value)) acc ps
           = acc @ map (\<lambda>(key, value). (key, g value)) ps"
  using assms
proof (induction ps arbitrary: acc)
  case Nil
  then show ?case by simp
next
  case (Cons p ps)
  obtain k v where p: "p = (k, v)" by (cases p)
  have a: "assign acc k (g v) = acc @ [(k, g v)]"
    using Cons.prems by (auto simp: assign_def p own_keys_def)
  have "set (own_keys (acc @ [(k, g v)])) \<inter> set (own_keys ps) = {}"
    using Cons.prems by (auto simp: p own_keys_def)
  moreover have "distinct (own_keys ps)" "''__proto__'' \<notin> set (own_keys ps)"
    using Cons.prems by (auto simp: own_keys_def)
  ultimately show ?case
    by (simp add: p a Cons.IH)
qed

text \<open>
  Where no object has a property named \<open>__proto__\<close>, the code computes the
  specification's normalisation.
\<close>

lemma nullToUndefined_normalise:
  "distinct_keys v \<Longrightarrow> proto_free v \<Longrightarrow> nullToUndefined v = normalise v"
proof (induction v rule: nullToUndefined.induct)
  case (6 xs)
  then show ?case by (simp add: list_all_iff)
next
  case (7 ps)
  have "foldl (\<lambda>result (key, value). assign result key (nullToUndefined value)) [] ps
          = map (\<lambda>(key, value). (key, nullToUndefined value)) ps"
    using "7.prems" loop_fresh_keys [of ps "[]" nullToUndefined] by (simp add: own_keys_def)
  also have "\<dots> = map (\<lambda>(key, value). (key, normalise value)) ps"
  proof -
    have "nullToUndefined x = normalise x" if "(k, x) \<in> set ps" for k x
      using that "7.IH" [of "(k, x)" k x] "7.prems" by (auto simp: list_all_iff)
    then show ?thesis by auto
  qed
  finally show ?case by simp
qed simp_all

lemma normalise_idem: "normalise (normalise v) = normalise v"
  by (induction v rule: normalise.induct) auto

lemma normalise_null_free: "null_free (normalise v)"
  by (induction v rule: normalise.induct) (auto simp: list_all_iff)

lemma normalise_length: "normalise (JArr xs) = JArr ys \<Longrightarrow> length ys = length xs"
  by auto

lemma normalise_own_keys: "normalise (JObj ps) = JObj qs \<Longrightarrow> own_keys qs = own_keys ps"
  by (auto simp: own_keys_def)

lemma normalise_distinct_keys: "distinct_keys (normalise v) = distinct_keys v"
  by (induction v rule: normalise.induct)
     (auto simp: list_all_iff own_keys_def comp_def case_prod_unfold)

lemma normalise_proto_free: "proto_free (normalise v) = proto_free v"
  by (induction v rule: normalise.induct)
     (auto simp: list_all_iff own_keys_def comp_def case_prod_unfold)

lemma nullToUndefined_idem_plain:
  assumes "distinct_keys v" and "proto_free v"
  shows "nullToUndefined (nullToUndefined v) = nullToUndefined v"
proof -
  have n: "nullToUndefined v = normalise v"
    using assms by (rule nullToUndefined_normalise)
  have "nullToUndefined (normalise v) = normalise (normalise v)"
    using assms
    by (intro nullToUndefined_normalise)
       (simp_all add: normalise_distinct_keys normalise_proto_free)
  then show ?thesis by (simp add: n normalise_idem)
qed

text \<open>
  C1. The specification claims that nullToUndefined keeps the key-set of every mapping
  and leaves every scalar other than null unchanged. The code does not on a mapping that
  has a property named \<open>__proto__\<close> (as \<open>JSON.parse\<close> creates from the text
  \<open>{"__proto__": 1}\<close>): the assignment \<open>result[key] = ...\<close> under that key creates no
  own property, so the result is the empty object, the key is gone and the scalar 1
  with it.
\<close>

theorem nullToUndefined_drops_proto_key:
  "nullToUndefined (JObj [(''__proto__'', JNum 1)]) = JObj []
   \<and> set (own_keys [(''__proto__'', JNum 1)]) \<noteq> set (own_keys [])"
  by (simp add: assign_def own_keys_def)

subsection \<open>The handler, guard by guard\<close>

text \<open>What the handler does once the session and the credential are there.\<close>

lemma POST_file_steps:
  assumes "getSession e = Returns (Some s)"
    and "\<not> key_missing (USERESUME_API_KEY e)"
    and "formData e = Returns fd"
  shows "POST e = (case file_steps e (map_of fd ''file'') of
                     (Inr resp, calls) \<Rightarrow> (Returns resp, calls)
                   | (Inl err, calls) \<Rightarrow> (catch_block err, calls))"
  using assms by (simp add: POST_def try_block_def)

text \<open>What it does once the file has passed the name and size checks as well.\<close>

lemma POST_remote_steps:
  assumes "getSession e = Returns (Some s)"
    and "\<not> key_missing (USERESUME_API_KEY e)"
    and "formData e = Returns fd"
    and "map_of fd ''file'' = Some (EntryFile f)"
    and "endsWith (toLowerCase (file_name f)) ''.pdf''"
    and "file_size f \<le> 5242880"
  shows "POST e = (case remote_steps e f of
                     (Inr resp, calls) \<Rightarrow> (Returns resp, calls)
                   | (Inl err, calls) \<Rightarrow> (catch_block err, calls))"
  using assms by (simp add: POST_file_steps [OF assms(1-3)] file_steps_def)

text \<open>The scenario passes every guard, whatever file it carries.\<close>

lemma with_file_session: "getSession (with_file f) = Returns (Some (Session ''user-1''))"
  by (simp add: scenario_defs)

lemma with_file_key: "\<not> key_missing (USERESUME_API_KEY (with_file f))"
  by (simp add: scenario_defs key_missing_def)

lemma with_file_formData: "formData (with_file f) = Returns [(''file'', EntryFile f)]"
  by (simp add: scenario_defs)

lemma the_file_entry: "map_of [(''file'', EntryFile f)] ''file'' = Some (EntryFile f)"
  by simp

text \<open>
  C6. When session resolution yields no session, the response is 401 with the body
  \<open>{ error: "Unauthorized" }\<close>, and no remote call is made.
\<close>

theorem no_session_unauthorized:
  assumes "getSession e = Returns None"
  shows "POST e =
           (Returns \<lparr>status = 401, body = JObj [(''error'', JStr ''Unauthorized'')]\<rparr>, [])"
  using assms by (simp add: POST_def try_block_def return_json_def json_def error_body_def)

theorem no_session_unauthorized_witness:
  "getSession (scenario\<lparr>getSession := Returns None\<rparr>) = Returns None
   \<and> POST (scenario\<lparr>getSession := Returns None\<rparr>)
       = (Returns \<lparr>status = 401, body = JObj [(''error'', JStr ''Unauthorized'')]\<rparr>, [])"
proof -
  have h: "getSession (scenario\<lparr>getSession := Returns None\<rparr>) = Returns None"
    by simp
  from no_session_unauthorized [OF h] h show ?thesis by simp
qed

text \<open>
  C9. The guards are evaluated in the order session, credential, file presence,
  extension, size, and the first one that fails decides the response, whatever the
  later ones would say: each line below constrains only the guards up to the failing
  one. In particular a request with no session gets 401 also when the credential is
  missing, and a request with a session and no credential gets 500 "Resume service not
  configured" also when its file is invalid (the form data is not even read).
\<close>

theorem guard_precedence:
  "(getSession e = Returns None \<longrightarrow>
      POST e = (Returns \<lparr>status = 401, body = JObj [(''error'', JStr ''Unauthorized'')]\<rparr>, []))
   \<and> (getSession e = Returns (Some s) \<and> key_missing (USERESUME_API_KEY e) \<longrightarrow>
      POST e = (Returns \<lparr>status = 500,
                 body = JObj [(''error'', JStr ''Resume service not configured'')]\<rparr>, []))
   \<and> (getSession e = Returns (Some s) \<and> \<not> key_missing (USERESUME_API_KEY e)
        \<and> formData e = Returns fd
        \<and> (map_of fd ''file'' = None \<or> map_of fd ''file'' = Some (EntryString [])) \<longrightarrow>
      POST e = (Returns \<lparr>status = 400, body = JObj [(''error'', JStr ''No file provided'')]\<rparr>, []))
   \<and> (getSession e = Returns (Some s) \<and> \<not> key_missing (USERESUME_API_KEY e)
        \<and> formData e = Returns fd \<and> map_of fd ''file'' = Some (EntryFile f)
        \<and> \<not> endsWith (toLowerCase (file_name f)) ''.pdf'' \<longrightarrow>
      POST e = (Returns \<lparr>status = 400,
                 body = JObj [(''error'', JStr ''Only PDF files are supported'')]\<rparr>, []))
   \<and> (getSession e = Returns (Some s) \<and> \<not> key_missing (USERESUME_API_KEY e)
        \<and> formData e = Returns fd \<and> map_of fd ''file'' = Some (EntryFile f)
        \<and> endsWith (toLowerCase (file_name f)) ''.pdf'' \<and> 5242880 < file_size f \<longrightarrow>
      POST e = (Returns \<lparr>status = 400,
                 body = JObj [(''error'', JStr ''File size exceeds 5MB limit'')]\<rparr>, []))"
  by (auto simp: POST_def try_block_def file_steps_def return_json_def json_def
      error_body_def)

text \<open>
  The witness runs five requests, each failing one guard and every guard after it:
  no session and no credential; no credential and an oversized \<open>.docx\<close> file; no file
  entry; an oversized \<open>.docx\<close> file; an oversized \<open>.pdf\<close> file.
\<close>

theorem guard_precedence_witness:
  "POST (with_file docx_file\<lparr>getSession := Returns None, USERESUME_API_KEY := None\<rparr>)
     = (Returns \<lparr>status = 401, body = JObj [(''error'', JStr ''Unauthorized'')]\<rparr>, [])
   \<and> POST (with_file docx_file\<lparr>USERESUME_API_KEY := None\<rparr>)
     = (Returns \<lparr>status = 500, body = JObj [(''error'', JStr ''Resume service not configured'')]\<rparr>, [])
   \<and> POST (scenario\<lparr>formData := Returns []\<rparr>)
     = (Returns \<lparr>status = 400, body = JObj [(''error'', JStr ''No file provided'')]\<rparr>, [])
   \<and> POST (with_file docx_file)
     = (Returns \<lparr>status = 400, body = JObj [(''error'', JStr ''Only PDF files are supported'')]\<rparr>, [])
   \<and> POST (with_file oversize_file)
     = (Returns \<lparr>status = 400, body = JObj [(''error'', JStr ''File size exceeds 5MB limit'')]\<rparr>, [])"
proof -
  let ?e1 = "with_file docx_file\<lparr>getSession := Returns None, USERESUME_API_KEY := None\<rparr>"
  let ?e2 = "with_file docx_file\<lparr>USERESUME_API_KEY := None\<rparr>"
  let ?e3 = "scenario\<lparr>formData := Returns []\<rparr>"
  let ?s = "Session ''user-1''"
  have 1: "getSession ?e1 = Returns None"
    by simp
  have 2: "getSession ?e2 = Returns (Some ?s) \<and> key_missing (USERESUME_API_KEY ?e2)"
    by (simp add: scenario_defs key_missing_def)
  have 3: "getSession ?e3 = Returns (Some ?s) \<and> \<not> key_missing (USERESUME_API_KEY ?e3)
      \<and> formData ?e3 = Returns [] \<and> map_of ([] :: (string \<times> form_entry) list) ''file'' = None"
    by (simp add: scenario_defs key_missing_def)
  have 4: "\<not> endsWith (toLowerCase (file_name docx_file)) ''.pdf''"
    by (simp add: docx_file_def string_defs)
  have 5: "endsWith (toLowerCase (file_name oversize_file)) ''.pdf''
      \<and> 5242880 < file_size oversize_file"
    by (simp add: oversize_file_def string_defs)
  from guard_precedence [of ?e1 ?s "[]" docx_file] 1
    guard_precedence [of ?e2 ?s "[]" docx_file] 2
    guard_precedence [of ?e3 ?s "[]" docx_file] 3
    guard_precedence [of "with_file docx_file" ?s "[(''file'', EntryFile docx_file)]" docx_file] 4
    guard_precedence [of "with_file oversize_file" ?s
      "[(''file'', EntryFile oversize_file)]" oversize_file] 5
    with_file_session with_file_key with_file_formData the_file_entry
  show ?thesis by simp
qed

subsection \<open>Exceptions\<close>

text \<open>
  Where an exception can come from inside the \<open>try\<close> block: session resolution, the
  form data, the name of an entry that is no file, the bytes of the file, the parse call
  and the create call, each only when every step before it has let the request through.
\<close>

lemma remote_steps_raises:
  "fst (remote_steps e f) = Inl err \<longleftrightarrow>
     file_arrayBuffer f = Throws err
   \<or> (\<exists>buf. file_arrayBuffer f = Returns buf \<and>
        (parseResume e \<lparr>pa_file = toBase64 e buf, pa_parse_to = ''json''\<rparr> = Throws err
       \<or> (\<exists>pr. parseResume e \<lparr>pa_file = toBase64 e buf, pa_parse_to = ''json''\<rparr> = Returns pr
             \<and> p_success pr \<and> truthy (p_data pr)
             \<and> createResume e \<lparr>ca_content = nullToUndefined (p_data pr),
                                 ca_style = horizon_style\<rparr> = Throws err)))"
  by (auto simp: remote_steps_def return_json_def json_def Let_def split: outcome.splits)

lemma file_steps_raises:
  "fst (file_steps e entry) = Inl err \<longleftrightarrow>
     (\<exists>str. entry = Some (EntryString str) \<and> str \<noteq> [] \<and> err = OtherError ''TypeError'')
   \<or> (\<exists>f. entry = Some (EntryFile f) \<and> endsWith (toLowerCase (file_name f)) ''.pdf''
          \<and> file_size f \<le> 5242880 \<and> fst (remote_steps e f) = Inl err)"
  by (auto simp: file_steps_def return_json_def json_def split: option.splits form_entry.splits)

lemma try_block_raises:
  "fst (try_block e) = Inl err \<longleftrightarrow>
     getSession e = Throws err
   \<or> (\<exists>s. getSession e = Returns (Some s)) \<and> \<not> key_missing (USERESUME_API_KEY e)
       \<and> (formData e = Throws err
          \<or> (\<exists>fd. formData e = Returns fd \<and> fst (file_steps e (map_of fd ''file'')) = Inl err))"
  by (auto simp: try_block_def return_json_def json_def split: outcome.splits)




text \<open>
  C10. An exception that is not a \<open>UseResumeError\<close> and is thrown before the remote
  calls, by session resolution or by the extraction of the form data (which runs only
  after the session and credential guards have passed), gives 500 with the generic body
  \<open>{ error: "Failed to optimize resume. Please try again." }\<close>, and no remote call.
\<close>

theorem early_exception_generic:
  assumes "\<forall>message st. err \<noteq> UseResumeError message st"
  shows "(getSession e = Throws err \<longrightarrow>
            POST e = (Returns \<lparr>status = 500,
                       body = JObj [(''error'',
                                JStr ''Failed to optimize resume. Please try again.'')]\<rparr>, []))
       \<and> (getSession e = Returns (Some s) \<and> \<not> key_missing (USERESUME_API_KEY e)
            \<and> formData e = Throws err \<longrightarrow>
            POST e = (Returns \<lparr>status = 500,
                       body = JObj [(''error'',
                                JStr ''Failed to optimize resume. Please try again.'')]\<rparr>, []))"
  using assms
  by (cases err)
     (simp_all add: POST_def try_block_def catch_block_def return_json_def json_def
        error_body_def)

theorem early_exception_generic_witness:
  "POST (scenario\<lparr>getSession := Throws (OtherError ''session store down'')\<rparr>)
     = (Returns \<lparr>status = 500,
         body = JObj [(''error'', JStr ''Failed to optimize resume. Please try again.'')]\<rparr>, [])
   \<and> POST (scenario\<lparr>formData := Throws (OtherError ''not multipart'')\<rparr>)
     = (Returns \<lparr>status = 500,
         body = JObj [(''error'', JStr ''Failed to optimize resume. Please try again.'')]\<rparr>, [])"
proof -
  let ?e1 = "scenario\<lparr>getSession := Throws (OtherError ''session store down'')\<rparr>"
  let ?e2 = "scenario\<lparr>formData := Throws (OtherError ''not multipart'')\<rparr>"
  have o: "\<forall>message st. OtherError d \<noteq> UseResumeError message st" for d
    by simp
  have 1: "getSession ?e1 = Throws (OtherError ''session store down'')"
    by simp
  have 2: "getSession ?e2 = Returns (Some (Session ''user-1''))
      \<and> \<not> key_missing (USERESUME_API_KEY ?e2)
      \<and> formData ?e2 = Throws (OtherError ''not multipart'')"
    by (simp add: scenario_defs key_missing_def)
  from early_exception_generic [OF o, of ?e1 "''session store down''" "Session ''user-1''"] 1
    early_exception_generic [OF o, of ?e2 "''not multipart''" "Session ''user-1''"] 2
  show ?thesis by simp
qed

subsection \<open>The file checks\<close>

lemma lower_char_dot: "lower_char c = CHR ''.'' \<longleftrightarrow> c = CHR ''.''"
  by (auto simp: lower_char_def split: if_splits)

lemma lower_char_p: "lower_char c = CHR ''p'' \<longleftrightarrow> c = CHR ''p'' \<or> c = CHR ''P''"
  by (auto simp: lower_char_def split: if_splits)

lemma lower_char_d: "lower_char c = CHR ''d'' \<longleftrightarrow> c = CHR ''d'' \<or> c = CHR ''D''"
  by (auto simp: lower_char_def split: if_splits)

lemma lower_char_f: "lower_char c = CHR ''f'' \<longleftrightarrow> c = CHR ''f'' \<or> c = CHR ''F''"
  by (auto simp: lower_char_def split: if_splits)

lemma endsWith_suffix: "endsWith s t \<longleftrightarrow> suffix t s"
  unfolding endsWith_def suffix_def
  by (metis append_eq_conv_conj append_take_drop_id diff_add_inverse2 le_add2 length_append)

lemma map_lower_pdf:
  "map lower_char zs = ''.pdf'' \<longleftrightarrow>
     (\<exists>p \<in> {CHR ''p'', CHR ''P''}. \<exists>d \<in> {CHR ''d'', CHR ''D''}. \<exists>f \<in> {CHR ''f'', CHR ''F''}.
        zs = [CHR ''.'', p, d, f])"
  by (auto simp: map_eq_Cons_conv lower_char_p lower_char_d lower_char_f lower_char_dot)

lemma suffix_map_iff: "suffix ys (map g xs) \<longleftrightarrow> (\<exists>zs. suffix zs xs \<and> map g zs = ys)"
  by (auto simp: suffix_def map_eq_append_conv)

text \<open>The check of the code is the case-insensitive suffix test of the specification.\<close>

lemma name_check_iff: "endsWith (toLowerCase name) ''.pdf'' \<longleftrightarrow> ends_in_pdf_any_case name"
  unfolding endsWith_suffix toLowerCase_def suffix_map_iff map_lower_pdf
    ends_in_pdf_any_case_def
  by blast

text \<open>No later step answers with the message of the extension check or of the size check.\<close>

lemma catch_block_not_pdf:
  "catch_block err \<noteq>
     Returns \<lparr>status = 400, body = JObj [(''error'', JStr ''Only PDF files are supported'')]\<rparr>"
  by (simp add: catch_block_def json_def error_body_def split: exn.splits option.splits)

lemma remote_steps_not_pdf:
  "fst (remote_steps e f) \<noteq>
     Inr \<lparr>status = 400, body = JObj [(''error'', JStr ''Only PDF files are supported'')]\<rparr>"
  by (simp add: remote_steps_def return_json_def json_def error_body_def success_body_def Let_def
      split: outcome.splits)

lemma catch_block_not_size:
  "catch_block err \<noteq>
     Returns \<lparr>status = 400, body = JObj [(''error'', JStr ''File size exceeds 5MB limit'')]\<rparr>"
  by (simp add: catch_block_def json_def error_body_def split: exn.splits option.splits)

lemma remote_steps_not_size:
  "fst (remote_steps e f) \<noteq>
     Inr \<lparr>status = 400, body = JObj [(''error'', JStr ''File size exceeds 5MB limit'')]\<rparr>"
  by (simp add: remote_steps_def return_json_def json_def error_body_def success_body_def Let_def
      split: outcome.splits)

text \<open>
  C7. Once the session, the credential and the file entry are there: a file whose name
  does not end in \<open>.pdf\<close> in any letter case is answered with 400 and
  \<open>{ error: "Only PDF files are supported" }\<close>, with no remote call; a file whose name
  does is never answered with that response.
\<close>

theorem pdf_extension_check:
  assumes "getSession e = Returns (Some s)"
    and "\<not> key_missing (USERESUME_API_KEY e)"
    and "formData e = Returns fd"
    and "map_of fd ''file'' = Some (EntryFile f)"
  shows "(\<not> ends_in_pdf_any_case (file_name f) \<longrightarrow>
            POST e = (Returns \<lparr>status = 400,
                       body = JObj [(''error'', JStr ''Only PDF files are supported'')]\<rparr>, []))
       \<and> (ends_in_pdf_any_case (file_name f) \<longrightarrow>
            fst (POST e) \<noteq>
              Returns \<lparr>status = 400, body = JObj [(''error'', JStr ''Only PDF files are supported'')]\<rparr>)"
proof (intro conjI impI)
  assume "\<not> ends_in_pdf_any_case (file_name f)"
  then show "POST e = (Returns \<lparr>status = 400,
      body = JObj [(''error'', JStr ''Only PDF files are supported'')]\<rparr>, [])"
    using assms(4)
    by (simp add: POST_file_steps [OF assms(1-3)] file_steps_def name_check_iff
        return_json_def json_def error_body_def)
next
  assume ok: "ends_in_pdf_any_case (file_name f)"
  show "fst (POST e) \<noteq>
      Returns \<lparr>status = 400, body = JObj [(''error'', JStr ''Only PDF files are supported'')]\<rparr>"
  proof (cases "5242880 < file_size f")
    case True
    then show ?thesis
      using assms(4) ok
      by (simp add: POST_file_steps [OF assms(1-3)] file_steps_def name_check_iff
          return_json_def json_def error_body_def)
  next
    case False
    then have fs: "file_steps e (map_of fd ''file'') = remote_steps e f"
      using assms(4) ok by (simp add: file_steps_def name_check_iff)
    show ?thesis
      using remote_steps_not_pdf [of e f] catch_block_not_pdf
      by (cases "remote_steps e f")
         (auto simp: POST_file_steps [OF assms(1-3)] fs split: sum.splits)
  qed
qed

text \<open>The witness: the file \<open>resume.docx\<close> of the specification's scenario, and \<open>Resume.PDF\<close>.\<close>

theorem pdf_extension_check_witness:
  "\<not> ends_in_pdf_any_case (file_name docx_file)
   \<and> POST (with_file docx_file)
       = (Returns \<lparr>status = 400, body = JObj [(''error'', JStr ''Only PDF files are supported'')]\<rparr>, [])
   \<and> ends_in_pdf_any_case (file_name limit_file)
   \<and> fst (POST (with_file limit_file))
       \<noteq> Returns \<lparr>status = 400, body = JObj [(''error'', JStr ''Only PDF files are supported'')]\<rparr>"
proof -
  have 1: "\<not> ends_in_pdf_any_case (file_name docx_file)"
    by (simp add: docx_file_def ends_in_pdf_any_case_def suffix_to_prefix)
  have 2: "ends_in_pdf_any_case (file_name limit_file)"
    by (simp add: limit_file_def ends_in_pdf_any_case_def suffix_to_prefix)
  from pdf_extension_check [OF with_file_session with_file_key with_file_formData
      the_file_entry, of docx_file]
    pdf_extension_check [OF with_file_session with_file_key with_file_formData
      the_file_entry, of limit_file] 1 2
  show ?thesis by simp
qed

text \<open>
  C2. Once the session, the credential and a file with a \<open>.pdf\<close> name are there: a
  file of exactly 5,242,880 bytes is not answered with the size error, and as soon as
  its bytes have been read the parse call is made with their encoding; a file of more
  than 5,242,880 bytes is answered with 400 and
  \<open>{ error: "File size exceeds 5MB limit" }\<close>, with no remote call.
\<close>

theorem size_limit_boundary:
  assumes "getSession e = Returns (Some s)"
    and "\<not> key_missing (USERESUME_API_KEY e)"
    and "formData e = Returns fd"
    and "map_of fd ''file'' = Some (EntryFile f)"
    and "endsWith (toLowerCase (file_name f)) ''.pdf''"
  shows "(file_size f = 5242880 \<longrightarrow>
            fst (POST e) \<noteq>
              Returns \<lparr>status = 400, body = JObj [(''error'', JStr ''File size exceeds 5MB limit'')]\<rparr>
            \<and> (\<forall>buf. file_arrayBuffer f = Returns buf \<longrightarrow>
                  (\<exists>later. snd (POST e) =
                     ParseResume \<lparr>pa_file = toBase64 e buf, pa_parse_to = ''json''\<rparr> # later)))
       \<and> (5242880 < file_size f \<longrightarrow>
            POST e = (Returns \<lparr>status = 400,
                       body = JObj [(''error'', JStr ''File size exceeds 5MB limit'')]\<rparr>, []))"
proof (intro conjI impI allI)
  assume eq: "file_size f = 5242880"
  then have le: "file_size f \<le> 5242880" by simp
  note P = POST_remote_steps [OF assms le]
  show "fst (POST e) \<noteq>
      Returns \<lparr>status = 400, body = JObj [(''error'', JStr ''File size exceeds 5MB limit'')]\<rparr>"
    using remote_steps_not_size [of e f] catch_block_not_size
    by (cases "remote_steps e f") (auto simp: P split: sum.splits)
  fix buf assume "file_arrayBuffer f = Returns buf"
  then show "\<exists>later. snd (POST e) =
      ParseResume \<lparr>pa_file = toBase64 e buf, pa_parse_to = ''json''\<rparr> # later"
    by (simp add: P remote_steps_def return_json_def json_def Let_def split: outcome.splits)
next
  assume "5242880 < file_size f"
  then show "POST e = (Returns \<lparr>status = 400,
      body = JObj [(''error'', JStr ''File size exceeds 5MB limit'')]\<rparr>, [])"
    using assms
    by (simp add: POST_file_steps [OF assms(1-3)] file_steps_def return_json_def json_def error_body_def)
qed

theorem size_limit_boundary_witness:
  "file_size limit_file = 5242880
   \<and> fst (POST (with_file limit_file)) \<noteq>
       Returns \<lparr>status = 400, body = JObj [(''error'', JStr ''File size exceeds 5MB limit'')]\<rparr>
   \<and> (\<exists>later. snd (POST (with_file limit_file)) =
         ParseResume \<lparr>pa_file = ''AAAA'', pa_parse_to = ''json''\<rparr> # later)
   \<and> 5242880 < file_size oversize_file
   \<and> POST (with_file oversize_file) =
       (Returns \<lparr>status = 400, body = JObj [(''error'', JStr ''File size exceeds 5MB limit'')]\<rparr>, [])"
proof -
  have n1: "endsWith (toLowerCase (file_name limit_file)) ''.pdf''"
    by (simp add: limit_file_def string_defs)
  have n2: "endsWith (toLowerCase (file_name oversize_file)) ''.pdf''"
    by (simp add: oversize_file_def string_defs)
  have b: "file_arrayBuffer limit_file = Returns (replicate 5242880 0)"
    by (simp add: limit_file_def)
  have t: "toBase64 (with_file limit_file) (replicate 5242880 0) = ''AAAA''"
    by (simp add: scenario_defs)
  have z1: "file_size limit_file = 5242880"
    by (simp add: limit_file_def)
  have z2: "5242880 < file_size oversize_file"
    by (simp add: oversize_file_def)
  from size_limit_boundary [OF with_file_session with_file_key with_file_formData
      the_file_entry n1]
    size_limit_boundary [OF with_file_session with_file_key with_file_formData
      the_file_entry n2] b t z1 z2
  show ?thesis by simp
qed

subsection \<open>The remote calls\<close>

text \<open>
  C3. When the parse call returns a result with \<open>success\<close> false or with absent data
  (\<open>undefined\<close> or \<open>null\<close>), the response is 400 with the parse-failure message, and the
  only remote call made is the parse call: the create call is never invoked.
\<close>

theorem parse_failure_stops:
  assumes "getSession e = Returns (Some s)"
    and "\<not> key_missing (USERESUME_API_KEY e)"
    and "formData e = Returns fd"
    and "map_of fd ''file'' = Some (EntryFile f)"
    and "endsWith (toLowerCase (file_name f)) ''.pdf''"
    and "file_size f \<le> 5242880"
    and "file_arrayBuffer f = Returns buf"
    and "parseResume e \<lparr>pa_file = toBase64 e buf, pa_parse_to = ''json''\<rparr> = Returns pr"
    and "\<not> p_success pr \<or> p_data pr = JUndefined \<or> p_data pr = JNull"
  shows "POST e =
           (Returns \<lparr>status = 400,
             body = JObj [(''error'',
                      JStr ''Failed to parse resume. Please ensure the PDF is readable.'')]\<rparr>,
            [ParseResume \<lparr>pa_file = toBase64 e buf, pa_parse_to = ''json''\<rparr>])
         \<and> (\<forall>c. CreateResume c \<notin> set (snd (POST e)))"
proof -
  have "\<not> p_success pr \<or> \<not> truthy (p_data pr)"
    using assms(9) by auto
  then have "remote_steps e f =
      (return_json (error_body ''Failed to parse resume. Please ensure the PDF is readable.'') 400,
       [ParseResume \<lparr>pa_file = toBase64 e buf, pa_parse_to = ''json''\<rparr>])"
    using assms(7,8) by (simp add: remote_steps_def Let_def)
  then show ?thesis
    by (simp add: POST_remote_steps [OF assms(1-6)] return_json_def json_def error_body_def)
qed

text \<open>The witness: the scenario with a parse call that reports success but no data.\<close>

theorem parse_failure_stops_witness:
  "POST (scenario\<lparr>parseResume := (\<lambda>args. Returns \<lparr>p_success = True, p_data = JNull\<rparr>)\<rparr>) =
     (Returns \<lparr>status = 400,
       body = JObj [(''error'',
                JStr ''Failed to parse resume. Please ensure the PDF is readable.'')]\<rparr>,
      [ParseResume \<lparr>pa_file = ''AAAA'', pa_parse_to = ''json''\<rparr>])"
proof -
  let ?pr = "\<lparr>p_success = True, p_data = JNull\<rparr>"
  let ?e = "scenario\<lparr>parseResume := (\<lambda>args. Returns ?pr)\<rparr>"
  have 1: "getSession ?e = Returns (Some (Session ''user-1''))"
    by (simp add: scenario_defs)
  have 2: "\<not> key_missing (USERESUME_API_KEY ?e)"
    by (simp add: scenario_defs key_missing_def)
  have 3: "formData ?e = Returns [(''file'', EntryFile scenario_file)]"
    by (simp add: scenario_def)
  have 5: "endsWith (toLowerCase (file_name scenario_file)) ''.pdf''"
    by (simp add: scenario_file_def string_defs)
  have 6: "file_size scenario_file \<le> 5242880"
    by (simp add: scenario_file_def)
  have 7: "file_arrayBuffer scenario_file = Returns (replicate 10240 0)"
    by (simp add: scenario_file_def)
  have 8: "parseResume ?e \<lparr>pa_file = toBase64 ?e (replicate 10240 0), pa_parse_to = ''json''\<rparr>
      = Returns ?pr"
    by simp
  have 9: "\<not> p_success ?pr \<or> p_data ?pr = JUndefined \<or> p_data ?pr = JNull"
    by simp
  have t: "toBase64 ?e (replicate 10240 0) = ''AAAA''"
    by (simp add: scenario_def)
  from parse_failure_stops [OF 1 2 3 the_file_entry 5 6 7 8 9] t
  show ?thesis by simp
qed

text \<open>
  C5. When both remote calls succeed and the create result has a populated file URL,
  the response is 200 with the body
  \<open>{ success: true, download_url, expires_at, credits_used, credits_remaining }\<close>:
  the URL and its expiry are those of the create result's data, the two counters are
  those of its metadata, and both are \<open>undefined\<close> when there is no metadata.
\<close>

theorem success_response:
  assumes "getSession e = Returns (Some s)"
    and "\<not> key_missing (USERESUME_API_KEY e)"
    and "formData e = Returns fd"
    and "map_of fd ''file'' = Some (EntryFile f)"
    and "endsWith (toLowerCase (file_name f)) ''.pdf''"
    and "file_size f \<le> 5242880"
    and "file_arrayBuffer f = Returns buf"
    and "parseResume e \<lparr>pa_file = toBase64 e buf, pa_parse_to = ''json''\<rparr> = Returns pr"
    and "p_success pr" and "truthy (p_data pr)"
    and "createResume e \<lparr>ca_content = nullToUndefined (p_data pr), ca_style = horizon_style\<rparr>
           = Returns cr"
    and "c_success cr" and "c_data cr = Some d" and "truthy (file_url d)"
  shows "POST e =
           (Returns \<lparr>status = 200,
             body = JObj [(''success'', JBool True),
                          (''download_url'', file_url d),
                          (''expires_at'', file_url_expires_at d),
                          (''credits_used'',
                             case c_meta cr of None \<Rightarrow> JUndefined | Some m \<Rightarrow> credits_used m),
                          (''credits_remaining'',
                             case c_meta cr of None \<Rightarrow> JUndefined
                             | Some m \<Rightarrow> credits_remaining m)]\<rparr>,
            [ParseResume \<lparr>pa_file = toBase64 e buf, pa_parse_to = ''json''\<rparr>,
             CreateResume \<lparr>ca_content = nullToUndefined (p_data pr),
                           ca_style = horizon_style\<rparr>])"
proof -
  have "remote_steps e f =
      (return_json (success_body cr) 200,
       [ParseResume \<lparr>pa_file = toBase64 e buf, pa_parse_to = ''json''\<rparr>,
        CreateResume \<lparr>ca_content = nullToUndefined (p_data pr), ca_style = horizon_style\<rparr>])"
    using assms(7-14) by (simp add: remote_steps_def Let_def data_file_url_def)
  then show ?thesis
    using assms(13)
    by (simp add: POST_remote_steps [OF assms(1-6)] return_json_def json_def success_body_def
        data_file_url_def data_expires_at_def meta_credits_used_def
        meta_credits_remaining_def)
qed

text \<open>The witness is the end-to-end scenario of the specification.\<close>

theorem success_response_witness:
  "POST scenario =
     (Returns \<lparr>status = 200,
       body = JObj [(''success'', JBool True),
                    (''download_url'', JStr ''https://x/y.pdf''),
                    (''expires_at'', JStr ''2025-01-01T00:00:00Z''),
                    (''credits_used'', JNum 1),
                    (''credits_remaining'', JNum 9)]\<rparr>,
      [ParseResume \<lparr>pa_file = ''AAAA'', pa_parse_to = ''json''\<rparr>,
       CreateResume \<lparr>ca_content = JObj [(''name'', JStr ''A''), (''skills'', JUndefined)],
                     ca_style = \<lparr>template = ''horizon'', template_color = ''amber'',
                                 font = ''inter''\<rparr>\<rparr>])"
proof -
  let ?d = "\<lparr>file_url = JStr ''https://x/y.pdf'',
             file_url_expires_at = JStr ''2025-01-01T00:00:00Z''\<rparr>"
  have 1: "getSession scenario = Returns (Some (Session ''user-1''))"
    by (simp add: scenario_def)
  have 2: "\<not> key_missing (USERESUME_API_KEY scenario)"
    by (simp add: scenario_def key_missing_def)
  have 3: "formData scenario = Returns [(''file'', EntryFile scenario_file)]"
    by (simp add: scenario_def)
  have 5: "endsWith (toLowerCase (file_name scenario_file)) ''.pdf''"
    by (simp add: scenario_file_def string_defs)
  have 6: "file_size scenario_file \<le> 5242880"
    by (simp add: scenario_file_def)
  have 7: "file_arrayBuffer scenario_file = Returns (replicate 10240 0)"
    by (simp add: scenario_file_def)
  have 8: "parseResume scenario
      \<lparr>pa_file = toBase64 scenario (replicate 10240 0), pa_parse_to = ''json''\<rparr>
      = Returns scenario_parse_result"
    by (simp add: scenario_def)
  have 9: "p_success scenario_parse_result" and 10: "truthy (p_data scenario_parse_result)"
    by (simp_all add: scenario_parse_result_def)
  have 11: "createResume scenario
      \<lparr>ca_content = nullToUndefined (p_data scenario_parse_result), ca_style = horizon_style\<rparr>
      = Returns scenario_create_result"
    by (simp add: scenario_def)
  have 12: "c_success scenario_create_result"
    and 13: "c_data scenario_create_result = Some ?d"
    by (simp_all add: scenario_create_result_def)
  have 14: "truthy (file_url ?d)"
    by simp
  have t: "toBase64 scenario (replicate 10240 0) = ''AAAA''"
    by (simp add: scenario_def)
  have n: "nullToUndefined (p_data scenario_parse_result)
      = JObj [(''name'', JStr ''A''), (''skills'', JUndefined)]"
    by (simp add: scenario_parse_result_def assign_def own_keys_def)
  have m: "c_meta scenario_create_result
      = Some \<lparr>credits_used = JNum 1, credits_remaining = JNum 9\<rparr>"
    by (simp add: scenario_create_result_def)
  from success_response [OF 1 2 3 the_file_entry 5 6 7 8 9 10 11 12 13 14] t n m
  show ?thesis by (simp add: horizon_style_def)
qed

text \<open>
  C8. When the create call returns a result with \<open>success\<close> false, or without a
  populated file URL (no data, or a \<open>file_url\<close> that is undefined, null, empty or
  otherwise falsy), the response is 500 with exactly the body
  \<open>{ error: "Failed to generate optimized resume" }\<close>: nothing of the remote result is
  in it.
\<close>

theorem create_failure_generic:
  assumes "getSession e = Returns (Some s)"
    and "\<not> key_missing (USERESUME_API_KEY e)"
    and "formData e = Returns fd"
    and "map_of fd ''file'' = Some (EntryFile f)"
    and "endsWith (toLowerCase (file_name f)) ''.pdf''"
    and "file_size f \<le> 5242880"
    and "file_arrayBuffer f = Returns buf"
    and "parseResume e \<lparr>pa_file = toBase64 e buf, pa_parse_to = ''json''\<rparr> = Returns pr"
    and "p_success pr" and "truthy (p_data pr)"
    and "createResume e \<lparr>ca_content = nullToUndefined (p_data pr), ca_style = horizon_style\<rparr>
           = Returns cr"
    and "\<not> c_success cr \<or> \<not> truthy (data_file_url cr)"
  shows "POST e =
           (Returns \<lparr>status = 500,
             body = JObj [(''error'', JStr ''Failed to generate optimized resume'')]\<rparr>,
            [ParseResume \<lparr>pa_file = toBase64 e buf, pa_parse_to = ''json''\<rparr>,
             CreateResume \<lparr>ca_content = nullToUndefined (p_data pr),
                           ca_style = horizon_style\<rparr>])"
proof -
  have "remote_steps e f =
      (return_json (error_body ''Failed to generate optimized resume'') 500,
       [ParseResume \<lparr>pa_file = toBase64 e buf, pa_parse_to = ''json''\<rparr>,
        CreateResume \<lparr>ca_content = nullToUndefined (p_data pr), ca_style = horizon_style\<rparr>])"
    using assms(7-12) by (auto simp add: remote_steps_def Let_def)
  then show ?thesis
    by (simp add: POST_remote_steps [OF assms(1-6)] return_json_def json_def error_body_def)
qed

text \<open>
  The witness: the scenario with a create call that reports success and data without a
  file URL.
\<close>

theorem create_failure_generic_witness:
  "fst (POST (scenario\<lparr>createResume := (\<lambda>args. Returns
          \<lparr>c_success = True,
           c_data = Some \<lparr>file_url = JUndefined, file_url_expires_at = JUndefined\<rparr>,
           c_meta = None\<rparr>)\<rparr>)) =
     Returns \<lparr>status = 500, body = JObj [(''error'', JStr ''Failed to generate optimized resume'')]\<rparr>"
proof -
  let ?cr = "\<lparr>c_success = True,
           c_data = Some \<lparr>file_url = JUndefined, file_url_expires_at = JUndefined\<rparr>,
           c_meta = None\<rparr>"
  let ?e = "scenario\<lparr>createResume := (\<lambda>args. Returns ?cr)\<rparr>"
  have 1: "getSession ?e = Returns (Some (Session ''user-1''))"
    by (simp add: scenario_def)
  have 2: "\<not> key_missing (USERESUME_API_KEY ?e)"
    by (simp add: scenario_def key_missing_def)
  have 3: "formData ?e = Returns [(''file'', EntryFile scenario_file)]"
    by (simp add: scenario_def)
  have 5: "endsWith (toLowerCase (file_name scenario_file)) ''.pdf''"
    by (simp add: scenario_file_def string_defs)
  have 6: "file_size scenario_file \<le> 5242880"
    by (simp add: scenario_file_def)
  have 7: "file_arrayBuffer scenario_file = Returns (replicate 10240 0)"
    by (simp add: scenario_file_def)
  have 8: "parseResume ?e \<lparr>pa_file = toBase64 ?e (replicate 10240 0), pa_parse_to = ''json''\<rparr>
      = Returns scenario_parse_result"
    by (simp add: scenario_def)
  have 9: "p_success scenario_parse_result" and 10: "truthy (p_data scenario_parse_result)"
    by (simp_all add: scenario_parse_result_def)
  have 11: "createResume ?e
      \<lparr>ca_content = nullToUndefined (p_data scenario_parse_result), ca_style = horizon_style\<rparr>
      = Returns ?cr"
    by simp
  have 12: "\<not> c_success ?cr \<or> \<not> truthy (data_file_url ?cr)"
    by (simp add: data_file_url_def)
  from create_failure_generic [OF 1 2 3 the_file_entry 5 6 7 8 9 10 11 12]
  show ?thesis by simp
qed

end
